theory Spec2Isabelle
  imports Complex_Main
begin

section \<open>Floating-point values\<close>

text \<open>
  The program computes with IEEE double-precision numbers.  Rounding and overflow are
  idealised away: a finite value is a real number.  What is kept is the part of the
  arithmetic that does not raise: a numpy array division by zero yields an infinity or
  NaN (with a warning only), and these values propagate through the later operations.
  A zero is the positive zero, which is what an exactly cancelling subtraction produces
  under round-to-nearest.

  Where the denominator of a quotient is exactly zero in real arithmetic, the value the
  program computes depends on rounding residue, except at the parameter value \<open>0\<close>,
  which the sampler produces exactly.  At such a sample the value of this model (NaN, or
  the arctangent at \<open>\<plusminus>\<pi>/2\<close> by the exact sign of the numerator) need not be the
  value the program computes; the counterexamples below assert the first sample only.
\<close>

datatype fl = Fin real | PInf | NInf | NaN

fun fl_neg :: "fl \<Rightarrow> fl" where
  "fl_neg (Fin a) = Fin (- a)"
| "fl_neg PInf = NInf"
| "fl_neg NInf = PInf"
| "fl_neg NaN = NaN"

fun fl_add :: "fl \<Rightarrow> fl \<Rightarrow> fl" where
  "fl_add (Fin a) (Fin b) = Fin (a + b)"
| "fl_add NaN _ = NaN"
| "fl_add _ NaN = NaN"
| "fl_add PInf NInf = NaN"
| "fl_add NInf PInf = NaN"
| "fl_add PInf _ = PInf"
| "fl_add _ PInf = PInf"
| "fl_add NInf _ = NInf"
| "fl_add _ NInf = NInf"

definition fl_sub :: "fl \<Rightarrow> fl \<Rightarrow> fl" where
  "fl_sub a b = fl_add a (fl_neg b)"

fun fl_mul :: "fl \<Rightarrow> fl \<Rightarrow> fl" where
  "fl_mul (Fin a) (Fin b) = Fin (a * b)"
| "fl_mul NaN _ = NaN"
| "fl_mul _ NaN = NaN"
| "fl_mul (Fin a) PInf = (if 0 < a then PInf else if a < 0 then NInf else NaN)"
| "fl_mul (Fin a) NInf = (if 0 < a then NInf else if a < 0 then PInf else NaN)"
| "fl_mul PInf (Fin b) = (if 0 < b then PInf else if b < 0 then NInf else NaN)"
| "fl_mul NInf (Fin b) = (if 0 < b then NInf else if b < 0 then PInf else NaN)"
| "fl_mul PInf PInf = PInf"
| "fl_mul PInf NInf = NInf"
| "fl_mul NInf PInf = NInf"
| "fl_mul NInf NInf = PInf"

fun fl_div :: "fl \<Rightarrow> fl \<Rightarrow> fl" where
  "fl_div (Fin a) (Fin b) =
     (if b \<noteq> 0 then Fin (a / b)
      else if 0 < a then PInf else if a < 0 then NInf else NaN)"
| "fl_div NaN _ = NaN"
| "fl_div _ NaN = NaN"
| "fl_div (Fin a) PInf = Fin 0"
| "fl_div (Fin a) NInf = Fin 0"
| "fl_div PInf (Fin b) = (if 0 \<le> b then PInf else NInf)"
| "fl_div NInf (Fin b) = (if 0 \<le> b then NInf else PInf)"
| "fl_div PInf PInf = NaN"
| "fl_div PInf NInf = NaN"
| "fl_div NInf PInf = NaN"
| "fl_div NInf NInf = NaN"

fun fl_sin :: "fl \<Rightarrow> fl" where
  "fl_sin (Fin a) = Fin (sin a)"
| "fl_sin _ = NaN"

fun fl_cos :: "fl \<Rightarrow> fl" where
  "fl_cos (Fin a) = Fin (cos a)"
| "fl_cos _ = NaN"

text \<open>The one-argument arctangent; its limits at the infinities are \<open>\<plusminus>\<pi>/2\<close>.\<close>

fun fl_arctan :: "fl \<Rightarrow> fl" where
  "fl_arctan (Fin a) = Fin (arctan a)"
| "fl_arctan PInf = Fin (pi / 2)"
| "fl_arctan NInf = Fin (- (pi / 2))"
| "fl_arctan NaN = NaN"

fun is_finite :: "fl \<Rightarrow> bool" where
  "is_finite (Fin a) = True"
| "is_finite _ = False"

text \<open>
  Numeric equality as a comparison of two floats decides it: NaN equals nothing, itself
  included.
\<close>

fun fl_eq :: "fl \<Rightarrow> fl \<Rightarrow> bool" where
  "fl_eq NaN _ = False"
| "fl_eq _ NaN = False"
| "fl_eq (Fin a) (Fin b) = (a = b)"
| "fl_eq PInf PInf = True"
| "fl_eq NInf NInf = True"
| "fl_eq _ _ = False"

section \<open>Python scalars and numpy arrays\<close>

datatype error = ValueError | ZeroDivisionError

text \<open>\<^verbatim>\<open>a / b\<close> on Python floats raises on a zero divisor.\<close>

definition py_truediv :: "real \<Rightarrow> real \<Rightarrow> error + real" where
  "py_truediv a b = (if b = 0 then Inl ZeroDivisionError else Inr (a / b))"

text \<open>\<^verbatim>\<open>round(x)\<close> on a Python float: the nearest integer, a tie going to the even one.\<close>

definition py_round :: "real \<Rightarrow> int" where
  "py_round x =
     (let f = \<lfloor>x\<rfloor>; d = x - of_int f
      in if d < 1 / 2 then f else if 1 / 2 < d then f + 1
         else if even f then f else f + 1)"

type_synonym ndarray = "fl list"

text \<open>
  \<^verbatim>\<open>np.linspace(start, stop, num, endpoint)\<close>: a negative \<open>num\<close> raises; otherwise
  \<open>arange(num)\<close> is scaled by the step, shifted by \<open>start\<close>, and with \<open>endpoint\<close> and
  more than one sample the last entry is overwritten with \<open>stop\<close>.
\<close>

definition np_linspace :: "real \<Rightarrow> real \<Rightarrow> int \<Rightarrow> bool \<Rightarrow> error + ndarray" where
  "np_linspace start stop num endpoint =
     (if num < 0 then Inl ValueError
      else
        let dv = (if endpoint then num - 1 else num);
            delta = stop - start;
            y0 = map real [0..<nat num];
            y1 = (if 0 < dv
                  then (let step = delta / of_int dv
                        in if step = 0 then map (\<lambda>v. v / of_int dv * delta) y0
                           else map (\<lambda>v. v * step) y0)
                  else map (\<lambda>v. v * delta) y0);
            y2 = map (\<lambda>v. v + start) y1;
            y3 = (if endpoint \<and> 1 < num then y2[nat num - 1 := stop] else y2)
        in Inr (map Fin y3))"

definition np_sin :: "ndarray \<Rightarrow> ndarray" where
  "np_sin a = map fl_sin a"

definition np_cos :: "ndarray \<Rightarrow> ndarray" where
  "np_cos a = map fl_cos a"

definition np_arctan :: "ndarray \<Rightarrow> ndarray" where
  "np_arctan a = map fl_arctan a"

text \<open>A Python scalar combined with an array, and two arrays combined elementwise.\<close>

definition scalar_mul :: "real \<Rightarrow> ndarray \<Rightarrow> ndarray" where
  "scalar_mul c a = map (fl_mul (Fin c)) a"

definition scalar_add :: "real \<Rightarrow> ndarray \<Rightarrow> ndarray" where
  "scalar_add c a = map (fl_add (Fin c)) a"

definition scalar_sub :: "real \<Rightarrow> ndarray \<Rightarrow> ndarray" where
  "scalar_sub c a = map (fl_sub (Fin c)) a"

definition array_add :: "ndarray \<Rightarrow> ndarray \<Rightarrow> ndarray" where
  "array_add a b = map2 fl_add a b"

definition array_sub :: "ndarray \<Rightarrow> ndarray \<Rightarrow> ndarray" where
  "array_sub a b = map2 fl_sub a b"

definition array_div :: "ndarray \<Rightarrow> ndarray \<Rightarrow> ndarray" where
  "array_div a b = map2 fl_div a b"

section \<open>The cycloidal disk profile\<close>

text \<open>
  The denominator of the arctangent's argument,
  \<^verbatim>\<open>(R / (e * N)) - np.cos((1-N) * t)\<close>, with \<open>c\<close> the scalar quotient.
\<close>

definition arctan_denominator :: "real \<Rightarrow> int \<Rightarrow> ndarray \<Rightarrow> ndarray" where
  "arctan_denominator c N t = scalar_sub c (np_cos (scalar_mul (of_int (1 - N)) t))"

text \<open>\<^verbatim>\<open>t + np.arctan(np.sin((1-N) * t) / ((R / (e * N)) - np.cos((1-N) * t)))\<close>\<close>

definition phase :: "real \<Rightarrow> int \<Rightarrow> ndarray \<Rightarrow> ndarray" where
  "phase c N t =
     array_add t
       (np_arctan (array_div (np_sin (scalar_mul (of_int (1 - N)) t))
                             (arctan_denominator c N t)))"

text \<open>
  \<^verbatim>\<open>cycloidal_disk_shape(R, Rr, e, N, num_points)\<close>.  The sample array is built first;
  the scalar quotient \<^verbatim>\<open>R / (e * N)\<close> is plain Python arithmetic and raises on a zero
  divisor; everything else is array arithmetic, which never raises.
\<close>

definition cycloidal_disk_shape ::
  "real \<Rightarrow> real \<Rightarrow> real \<Rightarrow> int \<Rightarrow> int \<Rightarrow> error + (ndarray \<times> ndarray)" where
  "cycloidal_disk_shape R Rr e N num_points =
     (case np_linspace 0 (2 * pi) num_points True of
        Inl err \<Rightarrow> Inl err
      | Inr t \<Rightarrow>
          (case py_truediv R (e * of_int N) of
             Inl err \<Rightarrow> Inl err
           | Inr c \<Rightarrow>
               let x = array_sub
                         (array_sub (scalar_mul R (np_cos t))
                                    (scalar_mul Rr (np_cos (phase c N t))))
                         (scalar_mul e (np_cos (scalar_mul (of_int N) t)));
                   y = array_add
                         (array_add (scalar_mul (- R) (np_sin t))
                                    (scalar_mul Rr (np_sin (phase c N t))))
                         (scalar_mul e (np_sin (scalar_mul (of_int N) t)))
               in Inr (x, y)))"

section \<open>Outer pins and derived outputs\<close>

text \<open>
  The pin centres of \<^verbatim>\<open>main\<close>: \<^verbatim>\<open>np.linspace(0, 2*np.pi, N, endpoint=False)\<close>,
  then \<^verbatim>\<open>center_x + R * np.cos(pin_angles)\<close> and the same with the sine, the centre
  being the origin.
\<close>

definition pin_angles :: "int \<Rightarrow> error + ndarray" where
  "pin_angles N = np_linspace 0 (2 * pi) N False"

definition pin_centers :: "real \<Rightarrow> int \<Rightarrow> error + (ndarray \<times> ndarray)" where
  "pin_centers R N =
     (case pin_angles N of
        Inl err \<Rightarrow> Inl err
      | Inr a \<Rightarrow> Inr (scalar_add 0 (scalar_mul R (np_cos a)),
                      scalar_add 0 (scalar_mul R (np_sin a))))"

text \<open>
  The loop \<^verbatim>\<open>for i in range(N)\<close> adds one circle per pin:
  centre \<^verbatim>\<open>(pin_x[i], pin_y[i])\<close>, radius \<^verbatim>\<open>dp/2\<close>.
\<close>

definition pin_circles :: "real \<Rightarrow> real \<Rightarrow> int \<Rightarrow> error + ((fl \<times> fl) \<times> real) list" where
  "pin_circles R dp N =
     (case pin_centers R N of
        Inl err \<Rightarrow> Inl err
      | Inr (pin_x, pin_y) \<Rightarrow>
          Inr (map (\<lambda>i. ((pin_x ! i, pin_y ! i), dp / 2)) [0..<nat N]))"

text \<open>\<^verbatim>\<open>int(N-1)\<close> and \<^verbatim>\<open>round((drp+2*e)*1000)/1000\<close>.\<close>

definition gear_reduction :: "int \<Rightarrow> int" where
  "gear_reduction N = N - 1"

definition disk_hole_diameter :: "real \<Rightarrow> real \<Rightarrow> real" where
  "disk_hole_diameter drp e = of_int (py_round ((drp + 2 * e) * 1000)) / 1000"

section \<open>The specification's formulas\<close>

text \<open>The preconditions of the profile generator.\<close>

definition valid_parameters :: "real \<Rightarrow> real \<Rightarrow> real \<Rightarrow> int \<Rightarrow> int \<Rightarrow> bool" where
  "valid_parameters R Rr e N num_points \<longleftrightarrow>
     0 < R \<and> 0 < Rr \<and> 0 < e \<and> 2 \<le> N \<and> 2 \<le> num_points"

text \<open>The \<open>i\<close>-th of \<open>num_points\<close> evenly spaced parameter values on \<open>[0, 2\<pi>]\<close>.\<close>

definition sample_t :: "int \<Rightarrow> nat \<Rightarrow> real" where
  "sample_t num_points i = 2 * pi * real i / of_int (num_points - 1)"

text \<open>The \<open>i\<close>-th of \<open>N\<close> pin angles: start at \<open>0\<close>, step \<open>2\<pi>/N\<close>.\<close>

definition pin_angle :: "int \<Rightarrow> nat \<Rightarrow> real" where
  "pin_angle N i = real i * (2 * pi / of_int N)"

text \<open>
  The formulas of the specification at one parameter value \<open>t\<close>, evaluated in the
  arithmetic above: the denominator \<open>R/(e\<cdot>N) - cos((1-N)\<cdot>t)\<close>, the phase
  \<open>t + arctan(sin((1-N)\<cdot>t) / denominator)\<close> with the one-argument arctangent, and
  the point \<open>(x(t), y(t))\<close>.
\<close>

definition formula_denominator :: "real \<Rightarrow> real \<Rightarrow> int \<Rightarrow> real \<Rightarrow> real" where
  "formula_denominator R e N t = R / (e * of_int N) - cos (of_int (1 - N) * t)"

definition formula_phase :: "real \<Rightarrow> real \<Rightarrow> int \<Rightarrow> real \<Rightarrow> fl" where
  "formula_phase R e N t =
     fl_add (Fin t)
       (fl_arctan (fl_div (Fin (sin (of_int (1 - N) * t)))
                          (Fin (formula_denominator R e N t))))"

definition formula_x :: "real \<Rightarrow> real \<Rightarrow> real \<Rightarrow> int \<Rightarrow> real \<Rightarrow> fl" where
  "formula_x R Rr e N t =
     fl_sub (fl_sub (Fin (R * cos t)) (fl_mul (Fin Rr) (fl_cos (formula_phase R e N t))))
            (Fin (e * cos (of_int N * t)))"

definition formula_y :: "real \<Rightarrow> real \<Rightarrow> real \<Rightarrow> int \<Rightarrow> real \<Rightarrow> fl" where
  "formula_y R Rr e N t =
     fl_add (fl_add (Fin (- R * sin t)) (fl_mul (Fin Rr) (fl_sin (formula_phase R e N t))))
            (Fin (e * sin (of_int N * t)))"

text \<open>The same formulas where the quotient is an ordinary real number.\<close>

definition real_phase :: "real \<Rightarrow> real \<Rightarrow> int \<Rightarrow> real \<Rightarrow> real" where
  "real_phase R e N t =
     t + arctan (sin (of_int (1 - N) * t) / formula_denominator R e N t)"

definition real_x :: "real \<Rightarrow> real \<Rightarrow> real \<Rightarrow> int \<Rightarrow> real \<Rightarrow> real" where
  "real_x R Rr e N t = R * cos t - Rr * cos (real_phase R e N t) - e * cos (of_int N * t)"

definition real_y :: "real \<Rightarrow> real \<Rightarrow> real \<Rightarrow> int \<Rightarrow> real \<Rightarrow> real" where
  "real_y R Rr e N t = - R * sin t + Rr * sin (real_phase R e N t) + e * sin (of_int N * t)"


text \<open>
  Sample \<open>i\<close> and the sample at the same distance from the other end are reflections of
  each other across the x-axis.
\<close>

definition mirrored_at :: "nat \<Rightarrow> ndarray \<times> ndarray \<Rightarrow> bool" where
  "mirrored_at i p \<longleftrightarrow>
     fl_eq (fst p ! i) (fst p ! (length (fst p) - 1 - i))
   \<and> fl_eq (fl_neg (snd p ! i)) (snd p ! (length (snd p) - 1 - i))"

section \<open>Sampling\<close>

lemma map2_same:
  "map2 f (map g xs) (map h xs) = map (\<lambda>x. f (g x) (h x)) xs"
  by (induction xs) simp_all

lemma linspace_negative:
  "num < 0 \<Longrightarrow> np_linspace start stop num endpoint = Inl ValueError"
  by (simp add: np_linspace_def)

lemma linspace_closed:
  assumes "0 \<le> num"
  shows "np_linspace 0 (2 * pi) num True = Inr (map (\<lambda>i. Fin (sample_t num i)) [0..<nat num])"
proof (cases "2 \<le> num")
  case True
  define m where "m = nat num - 1"
  have num: "nat num = Suc m" "real_of_int (num - 1) = real m" "0 < m"
    using True by (simp_all add: m_def)
  have last: "2 * pi * real m / real m = 2 * pi"
    using num(3) by simp
  have "(map (\<lambda>v. v + 0) (map (\<lambda>v. v * (2 * pi / real m)) (map real [0..<Suc m])))[m := 2 * pi]
        = map (\<lambda>i. 2 * pi * real i / real m) [0..<Suc m]"
    using num(3)
    by (intro nth_equalityI) (auto simp: nth_list_update less_Suc_eq last simp del: upt_Suc)
  then show ?thesis
    using True num by (simp add: np_linspace_def sample_t_def Let_def del: upt_Suc)
next
  case False
  then have "num = 0 \<or> num = 1" using assms by linarith
  then show ?thesis
    by (auto simp: np_linspace_def sample_t_def Let_def)
qed

section \<open>The profile, sample by sample\<close>

lemma phase_pointwise:
  "phase (R / (e * of_int N)) N (map (\<lambda>i. Fin (f i)) is)
   = map (\<lambda>i. formula_phase R e N (f i)) is"
  by (simp add: phase_def arctan_denominator_def array_add_def array_div_def np_arctan_def
      np_sin_def np_cos_def scalar_mul_def scalar_sub_def fl_sub_def map2_same
      formula_phase_def formula_denominator_def o_def)

lemma shape_error_samples:
  "num_points < 0 \<Longrightarrow> cycloidal_disk_shape R Rr e N num_points = Inl ValueError"
  by (simp add: cycloidal_disk_shape_def linspace_negative)

lemma shape_error_quotient:
  "0 \<le> num_points \<Longrightarrow> e * of_int N = 0 \<Longrightarrow>
   cycloidal_disk_shape R Rr e N num_points = Inl ZeroDivisionError"
  by (simp add: cycloidal_disk_shape_def linspace_closed py_truediv_def)

lemma shape_pointwise:
  assumes "0 \<le> num_points" and "e * of_int N \<noteq> 0"
  shows "cycloidal_disk_shape R Rr e N num_points
         = Inr (map (\<lambda>i. formula_x R Rr e N (sample_t num_points i)) [0..<nat num_points],
                map (\<lambda>i. formula_y R Rr e N (sample_t num_points i)) [0..<nat num_points])"
proof -
  have q: "py_truediv R (e * of_int N) = Inr (R / (e * of_int N))"
    using assms(2) by (simp add: py_truediv_def)
  show ?thesis
    unfolding cycloidal_disk_shape_def linspace_closed [OF assms(1)] q
    by (simp add: phase_pointwise array_add_def array_sub_def np_sin_def np_cos_def
        scalar_mul_def fl_sub_def map2_same formula_x_def formula_y_def o_def)
qed

lemma valid_runs:
  "valid_parameters R Rr e N num_points \<Longrightarrow> 0 \<le> num_points \<and> e * of_int N \<noteq> 0"
  by (simp add: valid_parameters_def)

lemma formula_phase_finite:
  "formula_denominator R e N t \<noteq> 0 \<Longrightarrow> formula_phase R e N t = Fin (real_phase R e N t)"
  by (simp add: formula_phase_def real_phase_def)

lemma formula_x_finite:
  "formula_denominator R e N t \<noteq> 0 \<Longrightarrow> formula_x R Rr e N t = Fin (real_x R Rr e N t)"
  by (simp add: formula_x_def real_x_def formula_phase_finite fl_sub_def)

lemma formula_y_finite:
  "formula_denominator R e N t \<noteq> 0 \<Longrightarrow> formula_y R Rr e N t = Fin (real_y R Rr e N t)"
  by (simp add: formula_y_def real_y_def formula_phase_finite)

lemma denominator_positive:
  assumes "1 < R / (e * of_int N)"
  shows "0 < formula_denominator R e N t"
  unfolding formula_denominator_def
  using cos_le_one [of "of_int (1 - N) * t"] assms by linarith

lemma list_of_four:
  "length zs = 4 \<Longrightarrow> zs = [zs ! 0, zs ! 1, zs ! 2, zs ! 3]"
  by (intro nth_equalityI) (auto simp: nth_Cons' less_Suc_eq numeral_eq_Suc)

section \<open>The profile generator evaluates the formula\<close>

text \<open>
  C1.  For valid parameters and every sample index \<open>i < num_points\<close>, the generator
  returns two sequences whose \<open>i\<close>-th entries are the formula's \<open>x\<close> and \<open>y\<close> at
  \<open>t\<^sub>i = 2\<pi>\<cdot>i/(num_points - 1)\<close>, the phase being \<open>t\<^sub>i\<close> plus the one-argument
  arctangent of \<open>sin((1-N)\<cdot>t\<^sub>i) / (R/(e\<cdot>N) - cos((1-N)\<cdot>t\<^sub>i))\<close>.  Where the
  denominator is not zero these are the real numbers \<open>real_x\<close> and \<open>real_y\<close>.  The
  instance below is the scenario \<open>R = 50\<close>, \<open>Rr = 2\<close>, \<open>e = 0.5\<close>, \<open>N = 26\<close> with four
  samples, at \<open>t = 0, 2\<pi>/3, 4\<pi>/3, 2\<pi>\<close>.
\<close>

theorem profile_point_formula:
  assumes "valid_parameters R Rr e N num_points" and "i < nat num_points"
  shows "\<exists>xs ys. cycloidal_disk_shape R Rr e N num_points = Inr (xs, ys)
           \<and> length xs = nat num_points \<and> length ys = nat num_points
           \<and> xs ! i = formula_x R Rr e N (sample_t num_points i)
           \<and> ys ! i = formula_y R Rr e N (sample_t num_points i)
           \<and> (formula_denominator R e N (sample_t num_points i) \<noteq> 0 \<longrightarrow>
                xs ! i = Fin (real_x R Rr e N (sample_t num_points i))
              \<and> ys ! i = Fin (real_y R Rr e N (sample_t num_points i)))"
proof -
  from assms(1) have run: "0 \<le> num_points" "e * of_int N \<noteq> 0"
    using valid_runs by blast+
  show ?thesis
    unfolding shape_pointwise [OF run]
    using assms(2) by (simp add: formula_x_finite formula_y_finite)
qed

theorem profile_point_formula_witness:
  "valid_parameters 50 2 (1/2) 26 4
   \<and> cycloidal_disk_shape 50 2 (1/2) 26 4
     = Inr ([Fin (real_x 50 2 (1/2) 26 0), Fin (real_x 50 2 (1/2) 26 (2 * pi / 3)),
             Fin (real_x 50 2 (1/2) 26 (4 * pi / 3)), Fin (real_x 50 2 (1/2) 26 (2 * pi))],
            [Fin (real_y 50 2 (1/2) 26 0), Fin (real_y 50 2 (1/2) 26 (2 * pi / 3)),
             Fin (real_y 50 2 (1/2) 26 (4 * pi / 3)), Fin (real_y 50 2 (1/2) 26 (2 * pi))])"
proof -
  have v: "valid_parameters 50 2 (1/2) 26 4"
    by (simp add: valid_parameters_def)
  have d: "formula_denominator 50 (1/2) 26 t \<noteq> 0" for t
    using denominator_positive [where R = 50 and e = "1/2" and N = 26 and t = t] by simp
  have s: "sample_t 4 0 = 0" "sample_t 4 1 = 2 * pi / 3" "sample_t 4 2 = 4 * pi / 3"
    "sample_t 4 3 = 2 * pi"
    by (simp_all add: sample_t_def)
  have pt: "\<exists>xs ys. cycloidal_disk_shape 50 2 (1/2) 26 4 = Inr (xs, ys)
      \<and> length xs = 4 \<and> length ys = 4
      \<and> xs ! i = Fin (real_x 50 2 (1/2) 26 (sample_t 4 i))
      \<and> ys ! i = Fin (real_y 50 2 (1/2) 26 (sample_t 4 i))" if "i < 4" for i
    using profile_point_formula [OF v, of i] d that by auto
  obtain xs ys where r: "cycloidal_disk_shape 50 2 (1/2) 26 4 = Inr (xs, ys)"
    and len: "length xs = 4" "length ys = 4"
    using pt [of 0] by auto
  have p: "xs ! i = Fin (real_x 50 2 (1/2) 26 (sample_t 4 i))
         \<and> ys ! i = Fin (real_y 50 2 (1/2) 26 (sample_t 4 i))" if "i < 4" for i
    using pt [OF that] r by auto
  have "xs = [xs ! 0, xs ! 1, xs ! 2, xs ! 3]" "ys = [ys ! 0, ys ! 1, ys ! 2, ys ! 3]"
    using list_of_four len by blast+
  then have "xs = map (\<lambda>i. Fin (real_x 50 2 (1/2) 26 (sample_t 4 i))) [0, 1, 2, 3]"
    "ys = map (\<lambda>i. Fin (real_y 50 2 (1/2) 26 (sample_t 4 i))) [0, 1, 2, 3]"
    using p [of 0] p [of 1] p [of 2] p [of 3] by simp_all
  then show ?thesis
    using v r by (simp only: s list.map)
qed

section \<open>The curve closes\<close>

lemma sample_first: "sample_t n 0 = 0"
  by (simp add: sample_t_def)


lemma sin_int_multiple: "sin (of_int k * (2 * pi)) = 0"
  using sin_int_2pin [of k] by (simp add: mult.commute)

lemma cos_int_multiple: "cos (of_int k * (2 * pi)) = 1"
  using cos_int_2pin [of k] by (simp add: mult.commute)

lemma denominator_at_ends:
  "formula_denominator R e N 0 = R / (e * of_int N) - 1"
  "formula_denominator R e N (2 * pi) = R / (e * of_int N) - 1"
  unfolding formula_denominator_def by (simp_all only: cos_int_multiple mult_zero_right cos_zero)

lemma phase_at_start: "formula_phase R e N 0 = (if R / (e * of_int N) = 1 then NaN else Fin 0)"
  by (simp add: formula_phase_def denominator_at_ends)

lemma phase_at_end:
  "formula_phase R e N (2 * pi) = (if R / (e * of_int N) = 1 then NaN else Fin (2 * pi))"
  unfolding formula_phase_def denominator_at_ends sin_int_multiple by simp

lemma point_at_start:
  "formula_x R Rr e N 0 = (if R / (e * of_int N) = 1 then NaN else Fin (R - Rr - e))"
  "formula_y R Rr e N 0 = (if R / (e * of_int N) = 1 then NaN else Fin 0)"
  by (simp_all add: formula_x_def formula_y_def phase_at_start fl_sub_def)

lemma point_at_end:
  "formula_x R Rr e N (2 * pi) = (if R / (e * of_int N) = 1 then NaN else Fin (R - Rr - e))"
  "formula_y R Rr e N (2 * pi) = (if R / (e * of_int N) = 1 then NaN else Fin 0)"
  unfolding formula_x_def formula_y_def phase_at_end
  by (simp_all add: fl_sub_def cos_int_multiple sin_int_multiple)

lemma first_sample_singular:
  assumes "0 < num_points" and "e * of_int N \<noteq> 0" and "R = e * of_int N"
  shows "map_sum id (map_prod hd hd) (cycloidal_disk_shape R Rr e N num_points) = Inr (NaN, NaN)"
proof -
  have run: "0 \<le> num_points" using assms(1) by simp
  have ne: "[0..<nat num_points] \<noteq> []" using assms(1) by simp
  have q: "R / (e * of_int N) = 1" using assms(2,3) by simp
  show ?thesis
    unfolding shape_pointwise [OF run assms(2)]
    using ne by (simp add: hd_map sample_first point_at_start q del: upt_Suc)
qed




section \<open>The outer pins\<close>

lemma linspace_open:
  assumes "0 \<le> num"
  shows "np_linspace 0 (2 * pi) num False = Inr (map (\<lambda>i. Fin (pin_angle num i)) [0..<nat num])"
proof (cases "0 < num")
  case True
  then show ?thesis by (simp add: np_linspace_def pin_angle_def Let_def)
next
  case False
  with assms have "num = 0" by simp
  then show ?thesis by (simp add: np_linspace_def)
qed

lemma pin_centers_pointwise:
  assumes "0 \<le> N"
  shows "pin_centers R N
         = Inr (map (\<lambda>i. Fin (R * cos (pin_angle N i))) [0..<nat N],
                map (\<lambda>i. Fin (R * sin (pin_angle N i))) [0..<nat N])"
  by (simp add: pin_centers_def pin_angles_def linspace_open [OF assms] scalar_add_def
      scalar_mul_def np_cos_def np_sin_def o_def)

lemma pin_circles_pointwise:
  assumes "0 \<le> N"
  shows "pin_circles R dp N
         = Inr (map (\<lambda>i. ((Fin (R * cos (pin_angle N i)), Fin (R * sin (pin_angle N i))), dp / 2))
                 [0..<nat N])"
  by (simp add: pin_circles_def pin_centers_pointwise [OF assms])

lemma on_circle: "0 \<le> R \<Longrightarrow> sqrt ((R * cos a)\<^sup>2 + (R * sin a)\<^sup>2) = R"
proof -
  assume "0 \<le> R"
  have "(R * cos a)\<^sup>2 + (R * sin a)\<^sup>2 = R\<^sup>2"
    by (simp add: power_mult_distrib flip: distrib_left)
  then show ?thesis using \<open>0 \<le> R\<close> by simp
qed

text \<open>
  C3.  For \<open>R > 0\<close>, a positive pin diameter and \<open>N \<ge> 1\<close> the pin layout has exactly
  \<open>N\<close> circles; the \<open>i\<close>-th is centred at \<open>(R\<cdot>cos \<theta>\<^sub>i, R\<cdot>sin \<theta>\<^sub>i)\<close> with
  \<open>\<theta>\<^sub>i = i\<cdot>2\<pi>/N\<close>, at distance \<open>R\<close> from the origin; the angles start at \<open>0\<close>, stay
  below \<open>2\<pi>\<close> and consecutive ones differ by \<open>2\<pi>/N\<close>.  The instance below is
  \<open>R = 50\<close>, \<open>N = 4\<close>: pins at \<open>(50,0)\<close>, \<open>(0,50)\<close>, \<open>(-50,0)\<close>, \<open>(0,-50)\<close>.
\<close>

theorem pin_layout:
  assumes "0 < R" and "0 < dp" and "1 \<le> N"
  shows "\<exists>as ps. pin_angles N = Inr as \<and> pin_circles R dp N = Inr ps
           \<and> length as = nat N \<and> length ps = nat N
           \<and> (\<forall>i<nat N. as ! i = Fin (pin_angle N i)
                \<and> ps ! i = ((Fin (R * cos (pin_angle N i)), Fin (R * sin (pin_angle N i))), dp / 2)
                \<and> sqrt ((R * cos (pin_angle N i))\<^sup>2 + (R * sin (pin_angle N i))\<^sup>2) = R
                \<and> pin_angle N i < 2 * pi
                \<and> pin_angle N (Suc i) - pin_angle N i = 2 * pi / of_int N)
           \<and> pin_angle N 0 = 0"
proof -
  have n: "0 \<le> N" using assms(3) by simp
  have step: "pin_angle N (Suc i) - pin_angle N i = 2 * pi / of_int N" for i
    by (simp add: pin_angle_def distrib_right add_divide_distrib)
  have zero: "pin_angle N 0 = 0"
    by (simp add: pin_angle_def)
  have below: "pin_angle N i < 2 * pi" if "i < nat N" for i
  proof -
    have "real i < of_int N" using that by linarith
    then have "real i * (2 * pi) < of_int N * (2 * pi)" by simp
    then show ?thesis using assms(3) by (simp add: pin_angle_def field_simps)
  qed
  show ?thesis
    unfolding pin_circles_pointwise [OF n] pin_angles_def linspace_open [OF n]
    using assms(1) by (simp add: on_circle step below zero)
qed

theorem pin_layout_witness:
  "pin_circles 50 4 4
   = Inr [((Fin 50, Fin 0), 2), ((Fin 0, Fin 50), 2), ((Fin (- 50), Fin 0), 2),
          ((Fin 0, Fin (- 50)), 2)]"
proof -
  have a: "pin_angle 4 0 = 0" "pin_angle 4 1 = pi / 2" "pin_angle 4 2 = pi"
    "pin_angle 4 3 = 3 / 2 * pi"
    by (simp_all add: pin_angle_def)
  obtain ps where r: "pin_circles 50 4 4 = Inr ps" and len: "length ps = 4"
    and p: "\<And>i. i < 4 \<Longrightarrow>
       ps ! i = ((Fin (50 * cos (pin_angle 4 i)), Fin (50 * sin (pin_angle 4 i))), 4 / 2)"
    using pin_layout [of 50 4 4] by auto
  have "ps = [ps ! 0, ps ! 1, ps ! 2, ps ! 3]"
    using len by (intro nth_equalityI) (auto simp: nth_Cons' less_Suc_eq numeral_eq_Suc)
  then have "ps = map (\<lambda>i. ((Fin (50 * cos (pin_angle 4 i)), Fin (50 * sin (pin_angle 4 i))), 4 / 2))
       [0, 1, 2, 3]"
    using p [of 0] p [of 1] p [of 2] p [of 3] by simp
  then show ?thesis
    using r cos_3over2_pi sin_3over2_pi by (simp only: a list.map) simp
qed

section \<open>Derived outputs\<close>

lemma py_round_near: "\<bar>of_int (py_round x) - x\<bar> \<le> 1 / 2"
proof -
  have "of_int \<lfloor>x\<rfloor> \<le> x" "x < of_int \<lfloor>x\<rfloor> + 1"
    by linarith+
  then show ?thesis
    by (auto simp: py_round_def Let_def)
qed

text \<open>
  C4.  The gear reduction is \<open>N - 1\<close> (\<open>25\<close> for \<open>N = 26\<close>), and the disk hole diameter
  is \<open>drp + 2\<cdot>e\<close> rounded to three decimals: a multiple of \<open>1/1000\<close> at most \<open>1/2000\<close>
  away from it (\<open>34.33\<close> for \<open>drp = 33.33\<close>, \<open>e = 0.5\<close>).
\<close>

theorem derived_outputs:
  "gear_reduction N = N - 1 \<and> gear_reduction 26 = 25
   \<and> \<bar>disk_hole_diameter drp e - (drp + 2 * e)\<bar> \<le> 1 / 2000
   \<and> (\<exists>k::int. disk_hole_diameter drp e = of_int k / 1000)
   \<and> disk_hole_diameter (3333 / 100) (1 / 2) = 3433 / 100"
proof -
  have "\<bar>of_int (py_round ((drp + 2 * e) * 1000)) - (drp + 2 * e) * 1000\<bar> \<le> 1 / 2"
    by (rule py_round_near)
  then have near: "\<bar>disk_hole_diameter drp e - (drp + 2 * e)\<bar> \<le> 1 / 2000"
    by (simp add: disk_hole_diameter_def field_simps abs_le_iff)
  have "py_round 34330 = 34330"
    by (simp add: py_round_def)
  then have ex: "disk_hole_diameter (3333 / 100) (1 / 2) = 3433 / 100"
    by (simp add: disk_hole_diameter_def)
  show ?thesis
    using near ex by (auto simp: gear_reduction_def disk_hole_diameter_def)
qed

section \<open>Scaling\<close>

lemma denominator_scaled:
  "k \<noteq> 0 \<Longrightarrow> formula_denominator (k * R) (k * e) N t = formula_denominator R e N t"
  by (simp add: formula_denominator_def)

lemma phase_scaled:
  "k \<noteq> 0 \<Longrightarrow> formula_phase (k * R) (k * e) N t = formula_phase R e N t"
  by (simp add: formula_phase_def denominator_scaled)

lemma point_scaled:
  assumes "k \<noteq> 0"
  shows "formula_x (k * R) (k * Rr) (k * e) N t = fl_mul (Fin k) (formula_x R Rr e N t)"
    and "formula_y (k * R) (k * Rr) (k * e) N t = fl_mul (Fin k) (formula_y R Rr e N t)"
  unfolding formula_x_def formula_y_def phase_scaled [OF assms]
  by (cases "formula_phase R e N t"; simp add: fl_sub_def algebra_simps)+

text \<open>
  C7.  Scaling invariance: for valid parameters and a factor \<open>k > 0\<close>, the generator run
  on \<open>(k\<cdot>R, k\<cdot>Rr, k\<cdot>e)\<close> with the same \<open>N\<close> and \<open>num_points\<close> returns the output for
  \<open>(R, Rr, e)\<close> with every coordinate multiplied by \<open>k\<close>.
\<close>

theorem scaling_invariance:
  assumes "valid_parameters R Rr e N num_points" and "0 < k"
  shows "\<exists>xs ys. cycloidal_disk_shape R Rr e N num_points = Inr (xs, ys)
           \<and> cycloidal_disk_shape (k * R) (k * Rr) (k * e) N num_points
             = Inr (scalar_mul k xs, scalar_mul k ys)"
proof -
  from assms(1) have run: "0 \<le> num_points" "e * of_int N \<noteq> 0"
    using valid_runs by blast+
  have k: "k \<noteq> 0" using assms(2) by simp
  then have run': "k * e * of_int N \<noteq> 0" using run(2) by simp
  show ?thesis
    unfolding shape_pointwise [OF run] shape_pointwise [OF run(1) run']
    by (simp add: scalar_mul_def point_scaled [OF k] o_def)
qed

theorem scaling_invariance_witness:
  "valid_parameters 50 2 (1/2) 26 4 \<and> (0::real) < 2
   \<and> (\<exists>xs ys. cycloidal_disk_shape 50 2 (1/2) 26 4 = Inr (xs, ys)
         \<and> cycloidal_disk_shape 100 4 1 26 4 = Inr (scalar_mul 2 xs, scalar_mul 2 ys))"
proof -
  have v: "valid_parameters 50 2 (1/2) 26 4"
    by (simp add: valid_parameters_def)
  show ?thesis
    using v scaling_invariance [OF v, of 2] by simp
qed

section \<open>Mirror symmetry\<close>

lemma sin_mirror: "sin (of_int k * (2 * pi - t)) = - sin (of_int k * t)"
  by (simp only: right_diff_distrib sin_diff sin_int_multiple cos_int_multiple)

lemma cos_mirror: "cos (of_int k * (2 * pi - t)) = cos (of_int k * t)"
  by (simp only: right_diff_distrib cos_diff sin_int_multiple cos_int_multiple)

lemma denominator_mirror:
  "formula_denominator R e N (2 * pi - t) = formula_denominator R e N t"
  unfolding formula_denominator_def by (simp only: cos_mirror)

lemma fl_div_neg: "fl_div (Fin (- a)) (Fin b) = fl_neg (fl_div (Fin a) (Fin b))"
  by simp

lemma fl_arctan_neg: "fl_arctan (fl_neg v) = fl_neg (fl_arctan v)"
  by (cases v) (simp_all add: arctan_minus)

lemma phase_mirror:
  "formula_phase R e N (2 * pi - t) = fl_sub (Fin (2 * pi)) (formula_phase R e N t)"
proof -
  let ?a = "fl_arctan (fl_div (Fin (sin (of_int (1 - N) * t))) (Fin (formula_denominator R e N t)))"
  have "formula_phase R e N (2 * pi - t) = fl_add (Fin (2 * pi - t)) (fl_neg ?a)"
    unfolding formula_phase_def denominator_mirror sin_mirror fl_div_neg fl_arctan_neg ..
  also have "\<dots> = fl_sub (Fin (2 * pi)) (fl_add (Fin t) ?a)"
    by (cases ?a) (simp_all add: fl_sub_def)
  finally show ?thesis by (simp only: formula_phase_def)
qed

lemma point_mirror:
  "formula_x R Rr e N (2 * pi - t) = formula_x R Rr e N t"
  "formula_y R Rr e N (2 * pi - t) = fl_neg (formula_y R Rr e N t)"
proof -
  have one: "sin (2 * pi - t) = - sin t" "cos (2 * pi - t) = cos t"
    using sin_mirror [of 1 t] cos_mirror [of 1 t] by simp_all
  show "formula_x R Rr e N (2 * pi - t) = formula_x R Rr e N t"
    unfolding formula_x_def phase_mirror cos_mirror one
    by (cases "formula_phase R e N t") (simp_all add: fl_sub_def cos_diff)
  show "formula_y R Rr e N (2 * pi - t) = fl_neg (formula_y R Rr e N t)"
    unfolding formula_y_def phase_mirror sin_mirror one
    by (cases "formula_phase R e N t") (simp_all add: fl_sub_def sin_diff)
qed

lemma sample_mirror:
  assumes "2 \<le> n" and "i < nat n"
  shows "sample_t n (nat n - 1 - i) = 2 * pi - sample_t n i"
proof -
  have "real (nat n - 1 - i) = of_int (n - 1) - real i"
    using assms by simp
  moreover have "real_of_int (n - 1) \<noteq> 0" using assms(1) by simp
  ultimately show ?thesis
    by (simp add: sample_t_def field_simps)
qed

lemma real_point_mirror:
  assumes "formula_denominator R e N t \<noteq> 0"
  shows "real_x R Rr e N (2 * pi - t) = real_x R Rr e N t"
    and "real_y R Rr e N (2 * pi - t) = - real_y R Rr e N t"
proof -
  have d: "formula_denominator R e N (2 * pi - t) \<noteq> 0"
    unfolding denominator_mirror by (rule assms)
  have "Fin (real_x R Rr e N (2 * pi - t)) = Fin (real_x R Rr e N t)"
    using point_mirror(1) [of R Rr e N t]
    by (simp only: formula_x_finite [OF d] formula_x_finite [OF assms])
  then show "real_x R Rr e N (2 * pi - t) = real_x R Rr e N t"
    by simp
  have "Fin (real_y R Rr e N (2 * pi - t)) = fl_neg (Fin (real_y R Rr e N t))"
    using point_mirror(2) [of R Rr e N t]
    by (simp only: formula_y_finite [OF d] formula_y_finite [OF assms])
  then show "real_y R Rr e N (2 * pi - t) = - real_y R Rr e N t"
    by simp
qed

text \<open>
  C9 (as amended).  Mirror symmetry about the x-axis: at every parameter value \<open>t\<close>
  where the denominator is not zero the formula satisfies \<open>x(2\<pi> - t) = x(t)\<close> and
  \<open>y(2\<pi> - t) = -y(t)\<close>; and for valid parameters every sample \<open>i\<close> of the returned
  curve whose denominator is not zero is the reflection of the sample
  \<open>num_points - 1 - i\<close>.
\<close>

theorem mirror_symmetry:
  assumes "valid_parameters R Rr e N num_points" and "i < nat num_points"
    and "formula_denominator R e N (sample_t num_points i) \<noteq> 0"
  shows "(\<forall>t. formula_denominator R e N t \<noteq> 0 \<longrightarrow>
              real_x R Rr e N (2 * pi - t) = real_x R Rr e N t
            \<and> real_y R Rr e N (2 * pi - t) = - real_y R Rr e N t)
       \<and> (\<exists>xs ys. cycloidal_disk_shape R Rr e N num_points = Inr (xs, ys)
             \<and> xs ! i = Fin (real_x R Rr e N (sample_t num_points i))
             \<and> ys ! i = Fin (real_y R Rr e N (sample_t num_points i))
             \<and> xs ! (nat num_points - 1 - i) = Fin (real_x R Rr e N (sample_t num_points i))
             \<and> ys ! (nat num_points - 1 - i) = Fin (- real_y R Rr e N (sample_t num_points i))
             \<and> mirrored_at i (xs, ys))"
proof -
  from assms(1) have run: "0 \<le> num_points" "e * of_int N \<noteq> 0" and n: "2 \<le> num_points"
    by (simp_all add: valid_parameters_def)
  define m where "m = nat num_points"
  define t where "t = sample_t num_points i"
  define xs where "xs = map (\<lambda>i. formula_x R Rr e N (sample_t num_points i)) [0..<m]"
  define ys where "ys = map (\<lambda>i. formula_y R Rr e N (sample_t num_points i)) [0..<m]"
  have i: "i < m" and j: "m - 1 - i < m"
    using assms(2) by (simp_all add: m_def)
  have d: "formula_denominator R e N t \<noteq> 0"
    unfolding t_def by (rule assms(3))
  have d': "formula_denominator R e N (2 * pi - t) \<noteq> 0"
    unfolding denominator_mirror by (rule d)
  have s: "sample_t num_points (m - 1 - i) = 2 * pi - t"
    using sample_mirror [OF n assms(2)] by (simp only: m_def t_def)
  have shape: "cycloidal_disk_shape R Rr e N num_points = Inr (xs, ys)"
    by (simp add: shape_pointwise [OF run] xs_def ys_def m_def)
  have len: "length xs = m" "length ys = m"
    by (simp_all add: xs_def ys_def)
  have "xs ! (m - 1 - i) = formula_x R Rr e N (2 * pi - t)"
    "ys ! (m - 1 - i) = formula_y R Rr e N (2 * pi - t)"
    unfolding xs_def ys_def using j by (simp_all only: nth_map length_upt nth_upt diff_zero add_0 s)
  then have far: "xs ! (m - 1 - i) = Fin (real_x R Rr e N t)"
    "ys ! (m - 1 - i) = Fin (- real_y R Rr e N t)"
    by (simp_all only: formula_x_finite [OF d'] formula_y_finite [OF d'] real_point_mirror [OF d])
  have "xs ! i = formula_x R Rr e N t" "ys ! i = formula_y R Rr e N t"
    unfolding xs_def ys_def t_def using i by simp_all
  then have near: "xs ! i = Fin (real_x R Rr e N t)" "ys ! i = Fin (real_y R Rr e N t)"
    by (simp_all only: formula_x_finite [OF d] formula_y_finite [OF d])
  have mirrored: "mirrored_at i (xs, ys)"
    unfolding mirrored_at_def fst_conv snd_conv len near far by simp
  have everywhere: "\<forall>t. formula_denominator R e N t \<noteq> 0 \<longrightarrow>
              real_x R Rr e N (2 * pi - t) = real_x R Rr e N t
            \<and> real_y R Rr e N (2 * pi - t) = - real_y R Rr e N t"
    using real_point_mirror by blast
  show ?thesis
    using everywhere shape near far mirrored unfolding m_def t_def by blast
qed

theorem mirror_symmetry_witness:
  "valid_parameters 50 2 (1/2) 26 4
   \<and> formula_denominator 50 (1/2) 26 (sample_t 4 1) \<noteq> 0
   \<and> (\<exists>xs ys. cycloidal_disk_shape 50 2 (1/2) 26 4 = Inr (xs, ys)
         \<and> xs ! 1 = Fin (real_x 50 2 (1/2) 26 (sample_t 4 1))
         \<and> xs ! 2 = Fin (real_x 50 2 (1/2) 26 (sample_t 4 1))
         \<and> ys ! 1 = Fin (real_y 50 2 (1/2) 26 (sample_t 4 1))
         \<and> ys ! 2 = Fin (- real_y 50 2 (1/2) 26 (sample_t 4 1))
         \<and> mirrored_at 1 (xs, ys))"
proof -
  have v: "valid_parameters 50 2 (1/2) 26 4"
    by (simp add: valid_parameters_def)
  have d: "formula_denominator 50 (1/2) 26 (sample_t 4 1) \<noteq> 0"
    using denominator_positive [where R = 50 and e = "1/2" and N = 26 and t = "sample_t 4 1"]
    by simp
  have i: "(1::nat) < nat 4" "nat 4 - 1 - 1 = (2::nat)"
    by simp_all
  show ?thesis
    using v d mirror_symmetry [OF v i(1) d] unfolding i(2) by blast
qed

text \<open>
  C9 (the claim as stated fails).  \<open>R = 10\<close>, \<open>Rr = 2\<close>, \<open>e = 2.5\<close>, \<open>N = 4\<close> with
  five samples is a valid parameter set with \<open>R = e\<cdot>N\<close>: the first returned pair is
  \<open>(NaN, NaN)\<close>, which is the reflection of no pair, so the sampled curve is not its
  own reflection.
\<close>

theorem mirror_symmetry_counterexample:
  "valid_parameters 10 2 (5/2) 4 5
   \<and> map_sum id (map_prod hd hd) (cycloidal_disk_shape 10 2 (5/2) 4 5) = Inr (NaN, NaN)
   \<and> map_sum id (mirrored_at 0) (cycloidal_disk_shape 10 2 (5/2) 4 5) = Inr False"
proof -
  have v: "valid_parameters 10 2 (5/2) 4 5"
    by (simp add: valid_parameters_def)
  have f: "map_sum id (map_prod hd hd) (cycloidal_disk_shape 10 2 (5/2) 4 5) = Inr (NaN, NaN)"
    by (rule first_sample_singular) simp_all
  have "cycloidal_disk_shape 10 2 (5/2) 4 5
        = Inr (map (\<lambda>i. formula_x 10 2 (5/2) 4 (sample_t 5 i)) [0..<nat 5],
               map (\<lambda>i. formula_y 10 2 (5/2) 4 (sample_t 5 i)) [0..<nat 5])"
    by (rule shape_pointwise) simp_all
  then obtain xs ys where r: "cycloidal_disk_shape 10 2 (5/2) 4 5 = Inr (xs, ys)"
    and len: "length xs = 5"
    by simp
  have "hd xs = NaN"
    using f r by simp
  then have "xs ! 0 = NaN"
    using len by (cases xs) simp_all
  then have "map_sum id (mirrored_at 0) (cycloidal_disk_shape 10 2 (5/2) 4 5) = Inr False"
    by (simp add: r mirrored_at_def)
  with v f show ?thesis by blast
qed

section \<open>The arctangent's denominator\<close>

lemma denominators_pointwise:
  "arctan_denominator (R / (e * of_int N)) N (map (\<lambda>i. Fin (f i)) is)
   = map (\<lambda>i. Fin (formula_denominator R e N (f i))) is"
  by (simp add: arctan_denominator_def scalar_sub_def scalar_mul_def np_cos_def fl_sub_def
      formula_denominator_def o_def)

lemma samples_of_two:
  "map f [0..<2] = [f 0, f 1]"
  by (simp add: numeral_eq_Suc upt_rec)

text \<open>
  C8.  At the boundary \<open>N = 2\<close> with the minimum eccentricity \<open>e = 0.05\<close> and \<open>R \<ge> 5\<close>
  the denominator \<open>R/(e\<cdot>N) - cos((1-N)\<cdot>t)\<close> is nonzero at every \<open>t\<close>; the denominator
  array of the program has no zero entry, and every returned coordinate is finite.
\<close>

theorem minimum_eccentricity_no_zero_division:
  assumes "5 \<le> R" and "0 \<le> num_points"
  shows "(\<forall>t. formula_denominator R (1/20) 2 t \<noteq> 0)
       \<and> (\<exists>ts xs ys. np_linspace 0 (2 * pi) num_points True = Inr ts
             \<and> cycloidal_disk_shape R Rr (1/20) 2 num_points = Inr (xs, ys)
             \<and> (\<forall>d\<in>set (arctan_denominator (R / (1/20 * of_int 2)) 2 ts).
                   is_finite d \<and> d \<noteq> Fin 0)
             \<and> (\<forall>v\<in>set xs \<union> set ys. is_finite v))"
proof -
  have "1 < R / (1/20 * of_int 2)"
    using assms(1) by simp
  then have d: "formula_denominator R (1/20) 2 t \<noteq> 0" for t
    using denominator_positive [where R = R and e = "1/20" and N = 2 and t = t] by simp
  have run: "(1/20) * real_of_int 2 \<noteq> 0"
    by simp
  have fin: "is_finite (formula_x R Rr (1/20) 2 t)" "is_finite (formula_y R Rr (1/20) 2 t)" for t
    by (simp_all add: formula_x_finite [OF d] formula_y_finite [OF d])
  define ts where "ts = map (\<lambda>i. Fin (sample_t num_points i)) [0..<nat num_points]"
  have lin: "np_linspace 0 (2 * pi) num_points True = Inr ts"
    by (simp only: linspace_closed [OF assms(2)] ts_def)
  have den: "\<forall>d\<in>set (arctan_denominator (R / (1/20 * of_int 2)) 2 ts). is_finite d \<and> d \<noteq> Fin 0"
    unfolding ts_def denominators_pointwise using d by auto
  have "\<exists>xs ys. cycloidal_disk_shape R Rr (1/20) 2 num_points = Inr (xs, ys)
          \<and> (\<forall>v\<in>set xs \<union> set ys. is_finite v)"
    unfolding shape_pointwise [OF assms(2) run] using fin by auto
  then show ?thesis
    using d lin den by blast
qed

theorem minimum_eccentricity_no_zero_division_witness:
  "(5::real) \<le> 5 \<and> (0::int) \<le> 4
   \<and> formula_denominator 5 (1/20) 2 0 \<noteq> 0
   \<and> (\<exists>xs ys. cycloidal_disk_shape 5 1 (1/20) 2 4 = Inr (xs, ys)
         \<and> is_finite (xs ! 0) \<and> is_finite (ys ! 0))"
proof -
  obtain xs ys where r: "cycloidal_disk_shape 5 1 (1/20) 2 4 = Inr (xs, ys)"
    and f: "\<forall>v\<in>set xs \<union> set ys. is_finite v"
    and d: "formula_denominator 5 (1/20) 2 0 \<noteq> 0"
    using minimum_eccentricity_no_zero_division [of 5 4 1] by auto
  have "length xs = 4" "length ys = 4"
    using r by (auto simp: shape_pointwise)
  then have "xs ! 0 \<in> set xs" "ys ! 0 \<in> set ys"
    by simp_all
  then show ?thesis
    using r f d by auto
qed

text \<open>
  C5 (as amended).  Where the denominator is exactly zero at a sample, the generator
  surfaces no error: nothing is raised and both sequences are returned at their full
  length \<open>num_points\<close>.  When that sample is the first one, \<open>t = 0\<close>, its two
  coordinates are NaN.
\<close>

theorem zero_denominator_behaviour:
  assumes "0 \<le> num_points" and "e * of_int N \<noteq> 0" and "i < nat num_points"
    and "formula_denominator R e N (sample_t num_points i) = 0"
  shows "\<exists>xs ys. cycloidal_disk_shape R Rr e N num_points = Inr (xs, ys)
           \<and> length xs = nat num_points \<and> length ys = nat num_points
           \<and> (i = 0 \<longrightarrow> xs ! 0 = NaN \<and> ys ! 0 = NaN)"
proof -
  have "formula_x R Rr e N 0 = NaN \<and> formula_y R Rr e N 0 = NaN" if "i = 0"
  proof -
    have "formula_denominator R e N 0 = 0"
      using assms(4) that by (simp add: sample_first)
    then have "R / (e * of_int N) - 1 = 0"
      by (simp only: denominator_at_ends)
    then have q: "R / (e * of_int N) = 1"
      by linarith
    show ?thesis
      by (simp only: point_at_start q if_True simp_thms)
  qed
  then show ?thesis
    unfolding shape_pointwise [OF assms(1,2)]
    using assms(3) by (auto simp: sample_first)
qed

theorem zero_denominator_behaviour_witness:
  "formula_denominator 5 (5/2) 2 (sample_t 4 0) = 0
   \<and> (\<exists>xs ys. cycloidal_disk_shape 5 1 (5/2) 2 4 = Inr (xs, ys)
         \<and> length xs = 4 \<and> length ys = 4 \<and> xs ! 0 = NaN \<and> ys ! 0 = NaN)"
proof -
  have d: "formula_denominator 5 (5/2) 2 (sample_t 4 0) = 0"
    by (simp add: formula_denominator_def sample_t_def)
  show ?thesis
    using d zero_denominator_behaviour [of 4 "5/2" 2 0 5 1, OF _ _ _ d] by auto
qed

text \<open>
  C5 (the claim as stated fails).  \<open>R = 5\<close>, \<open>Rr = 1\<close>, \<open>e = 2.5\<close>, \<open>N = 2\<close> with four
  samples is a valid parameter set whose denominator is zero at \<open>t = 0\<close>: the generator
  returns its two sequences of four entries, the first entry of each being NaN.
\<close>

theorem zero_denominator_counterexample:
  "valid_parameters 5 1 (5/2) 2 4
   \<and> formula_denominator 5 (5/2) 2 0 = 0
   \<and> map_sum id (map_prod length length) (cycloidal_disk_shape 5 1 (5/2) 2 4) = Inr (4, 4)
   \<and> map_sum id (map_prod hd hd) (cycloidal_disk_shape 5 1 (5/2) 2 4) = Inr (NaN, NaN)"
proof -
  have v: "valid_parameters 5 1 (5/2) 2 4"
    by (simp add: valid_parameters_def)
  have d: "formula_denominator 5 (5/2) 2 0 = 0"
    by (simp add: formula_denominator_def)
  have l: "map_sum id (map_prod length length) (cycloidal_disk_shape 5 1 (5/2) 2 4) = Inr (4, 4)"
    by (simp add: shape_pointwise)
  have f: "map_sum id (map_prod hd hd) (cycloidal_disk_shape 5 1 (5/2) 2 4) = Inr (NaN, NaN)"
    by (rule first_sample_singular) simp_all
  from v d l f show ?thesis by blast
qed

section \<open>Parameters outside the preconditions\<close>

text \<open>
  C6 (what the program does).  The generator does not validate its parameters.  When the
  preconditions are violated it raises the sampler's \<open>ValueError\<close> for a negative
  \<open>num_points\<close>, else \<open>ZeroDivisionError\<close> when \<open>e\<cdot>N = 0\<close>, and in every other case
  returns two sequences of length \<open>num_points\<close> given by the formula.
\<close>

theorem invalid_parameters_behaviour:
  assumes "\<not> valid_parameters R Rr e N num_points"
  shows "(num_points < 0 \<longrightarrow> cycloidal_disk_shape R Rr e N num_points = Inl ValueError)
       \<and> (0 \<le> num_points \<and> e * of_int N = 0 \<longrightarrow>
            cycloidal_disk_shape R Rr e N num_points = Inl ZeroDivisionError)
       \<and> (0 \<le> num_points \<and> e * of_int N \<noteq> 0 \<longrightarrow>
            (\<exists>xs ys. cycloidal_disk_shape R Rr e N num_points = Inr (xs, ys)
               \<and> length xs = nat num_points \<and> length ys = nat num_points
               \<and> (\<forall>i<nat num_points. xs ! i = formula_x R Rr e N (sample_t num_points i)
                                    \<and> ys ! i = formula_y R Rr e N (sample_t num_points i))))"
  by (simp add: shape_error_samples shape_error_quotient shape_pointwise)

theorem invalid_parameters_behaviour_witness:
  "\<not> valid_parameters 1 1 1 2 (- 1) \<and> cycloidal_disk_shape 1 1 1 2 (- 1) = Inl ValueError
   \<and> \<not> valid_parameters 1 1 0 2 4 \<and> cycloidal_disk_shape 1 1 0 2 4 = Inl ZeroDivisionError
   \<and> \<not> valid_parameters (- 1) 1 1 2 2
   \<and> (\<exists>xs ys. cycloidal_disk_shape (- 1) 1 1 2 2 = Inr (xs, ys)
         \<and> length xs = 2 \<and> length ys = 2)"
proof -
  have a: "\<not> valid_parameters 1 1 1 2 (- 1)" and b: "\<not> valid_parameters 1 1 0 2 4"
    and c: "\<not> valid_parameters (- 1) 1 1 2 2"
    by (simp_all add: valid_parameters_def)
  show ?thesis
    using a b c invalid_parameters_behaviour [OF a] invalid_parameters_behaviour [OF b]
      invalid_parameters_behaviour [OF c]
    by auto
qed

text \<open>
  C6 (the claim as stated fails).  A negative radius, a pin count of one and a sample
  count of zero each violate the preconditions, and each yields a result.
\<close>

theorem invalid_parameters_counterexample:
  "\<not> valid_parameters (- 1) 1 1 2 2
   \<and> cycloidal_disk_shape (- 1) 1 1 2 2 = Inr ([Fin (- 3), Fin (- 3)], [Fin 0, Fin 0])
   \<and> \<not> valid_parameters 3 1 1 1 2
   \<and> cycloidal_disk_shape 3 1 1 1 2 = Inr ([Fin 1, Fin 1], [Fin 0, Fin 0])
   \<and> \<not> valid_parameters 1 1 1 2 0
   \<and> cycloidal_disk_shape 1 1 1 2 0 = Inr ([], [])"
proof -
  have s: "sample_t 2 0 = 0" "sample_t 2 (Suc 0) = 2 * pi"
    by (simp_all add: sample_t_def)
  have "cycloidal_disk_shape (- 1) 1 1 2 2 = Inr ([Fin (- 3), Fin (- 3)], [Fin 0, Fin 0])"
    by (simp add: shape_pointwise samples_of_two s point_at_start point_at_end del: upt_Suc)
  moreover have "cycloidal_disk_shape 3 1 1 1 2 = Inr ([Fin 1, Fin 1], [Fin 0, Fin 0])"
    by (simp add: shape_pointwise samples_of_two s point_at_start point_at_end del: upt_Suc)
  moreover have "cycloidal_disk_shape 1 1 1 2 0 = Inr ([], [])"
    by (simp add: shape_pointwise)
  ultimately show ?thesis
    by (simp add: valid_parameters_def)
qed

section \<open>The profile stays inside the disk of radius \<open>R + Rr + e\<close>\<close>

lemma three_vectors:
  "sqrt ((a + b + c)\<^sup>2 + (a' + b' + c')\<^sup>2)
   \<le> sqrt (a\<^sup>2 + a'\<^sup>2) + sqrt (b\<^sup>2 + b'\<^sup>2) + sqrt (c\<^sup>2 + c'\<^sup>2)"
proof -
  have "sqrt ((a + b + c)\<^sup>2 + (a' + b' + c')\<^sup>2)
        \<le> sqrt ((a + b)\<^sup>2 + (a' + b')\<^sup>2) + sqrt (c\<^sup>2 + c'\<^sup>2)"
    by (rule real_sqrt_sum_squares_triangle_ineq)
  moreover have "sqrt ((a + b)\<^sup>2 + (a' + b')\<^sup>2) \<le> sqrt (a\<^sup>2 + a'\<^sup>2) + sqrt (b\<^sup>2 + b'\<^sup>2)"
    by (rule real_sqrt_sum_squares_triangle_ineq)
  ultimately show ?thesis by linarith
qed

lemma radius: "0 \<le> r \<Longrightarrow> sqrt ((r * cos a)\<^sup>2 + (r * sin a)\<^sup>2) = r"
  using on_circle by simp

lemma real_point_bounded:
  assumes "0 \<le> R" and "0 \<le> Rr" and "0 \<le> e"
  shows "sqrt ((R * cos t - Rr * cos p - e * cos u)\<^sup>2 + (- R * sin t + Rr * sin p + e * sin u)\<^sup>2)
         \<le> R + Rr + e"
proof -
  have "sqrt ((R * cos t + - (Rr * cos p) + - (e * cos u))\<^sup>2
              + (- (R * sin t) + Rr * sin p + e * sin u)\<^sup>2)
        \<le> sqrt ((R * cos t)\<^sup>2 + (- (R * sin t))\<^sup>2) + sqrt ((- (Rr * cos p))\<^sup>2 + (Rr * sin p)\<^sup>2)
          + sqrt ((- (e * cos u))\<^sup>2 + (e * sin u)\<^sup>2)"
    by (rule three_vectors)
  also have "\<dots> = R + Rr + e"
    using assms by (simp add: radius)
  finally show ?thesis by simp
qed

lemma coordinate_le_norm: "\<bar>x\<bar> \<le> sqrt (x\<^sup>2 + y\<^sup>2)" "\<bar>y\<bar> \<le> sqrt (x\<^sup>2 + y\<^sup>2)"
  by (simp_all add: real_le_rsqrt real_le_lsqrt abs_le_square_iff [symmetric] flip: real_sqrt_abs)

text \<open>
  C10.  Boundedness: for valid parameters whose denominator is nonzero at every sample,
  every returned point \<open>(x, y)\<close> is finite with \<open>sqrt (x\<^sup>2 + y\<^sup>2) \<le> R + Rr + e\<close>, hence
  \<open>|x|\<close> and \<open>|y|\<close> are at most \<open>R + Rr + e\<close>.
\<close>

theorem profile_bounded:
  assumes "valid_parameters R Rr e N num_points"
    and "\<forall>j<nat num_points. formula_denominator R e N (sample_t num_points j) \<noteq> 0"
  shows "\<exists>xs ys. cycloidal_disk_shape R Rr e N num_points = Inr (xs, ys)
           \<and> (\<forall>i<nat num_points. \<exists>x y. xs ! i = Fin x \<and> ys ! i = Fin y
                 \<and> sqrt (x\<^sup>2 + y\<^sup>2) \<le> R + Rr + e
                 \<and> \<bar>x\<bar> \<le> R + Rr + e \<and> \<bar>y\<bar> \<le> R + Rr + e)"
proof -
  from assms(1) have run: "0 \<le> num_points" "e * of_int N \<noteq> 0"
    and pos: "0 \<le> R" "0 \<le> Rr" "0 \<le> e"
    by (simp_all add: valid_parameters_def)
  have pt: "\<exists>x y. formula_x R Rr e N t = Fin x \<and> formula_y R Rr e N t = Fin y
              \<and> sqrt (x\<^sup>2 + y\<^sup>2) \<le> R + Rr + e \<and> \<bar>x\<bar> \<le> R + Rr + e \<and> \<bar>y\<bar> \<le> R + Rr + e"
    if d: "formula_denominator R e N t \<noteq> 0" for t
  proof -
    have b: "sqrt ((real_x R Rr e N t)\<^sup>2 + (real_y R Rr e N t)\<^sup>2) \<le> R + Rr + e"
      unfolding real_x_def real_y_def by (rule real_point_bounded [OF pos])
    have "\<bar>real_x R Rr e N t\<bar> \<le> R + Rr + e" "\<bar>real_y R Rr e N t\<bar> \<le> R + Rr + e"
      using b coordinate_le_norm [where x = "real_x R Rr e N t" and y = "real_y R Rr e N t"] by linarith+
    with b show ?thesis
      using formula_x_finite [OF d] formula_y_finite [OF d] by blast
  qed
  show ?thesis
    unfolding shape_pointwise [OF run]
    using assms(2) pt by simp
qed

theorem profile_bounded_witness:
  "valid_parameters 50 2 (1/2) 26 4
   \<and> (\<exists>xs ys. cycloidal_disk_shape 50 2 (1/2) 26 4 = Inr (xs, ys)
         \<and> (\<exists>x y. xs ! 1 = Fin x \<and> ys ! 1 = Fin y \<and> sqrt (x\<^sup>2 + y\<^sup>2) \<le> 105 / 2))"
proof -
  have v: "valid_parameters 50 2 (1/2) 26 4"
    by (simp add: valid_parameters_def)
  have d: "\<forall>j<nat 4. formula_denominator 50 (1/2) 26 (sample_t 4 j) \<noteq> 0"
    using denominator_positive [where R = 50 and e = "1/2" and N = 26] by (simp add: less_le)
  obtain xs ys where r: "cycloidal_disk_shape 50 2 (1/2) 26 4 = Inr (xs, ys)"
    and b: "\<forall>i<nat 4. \<exists>x y. xs ! i = Fin x \<and> ys ! i = Fin y
                 \<and> sqrt (x\<^sup>2 + y\<^sup>2) \<le> 50 + 2 + 1 / 2"
    using profile_bounded [OF v d] by blast
  have "\<exists>x y. xs ! 1 = Fin x \<and> ys ! 1 = Fin y \<and> sqrt (x\<^sup>2 + y\<^sup>2) \<le> 50 + 2 + 1 / 2"
    using b by simp
  then show ?thesis
    using v r by simp
qed

end
